theory Spec2Isabelle
  imports Main
begin

section \<open>Paths\<close>

text \<open>
  The program manipulates file paths through the platform's \<open>path\<close> module
  (\<open>path.sep\<close>, \<open>path.extname\<close>, \<open>path.basename\<close>, \<open>path.dirname\<close>,
  \<open>path.join\<close>). The module belongs to the runtime, not to the repository, and it
  differs between platforms, so the program's functions take it as a parameter.
  \<open>resolve\<close> is \<open>path.resolve\<close> of one path: the absolute path, without \<open>.\<close>,
  \<open>..\<close> and trailing separators, that a path names in the working directory of the
  process. The file system finds the file of a path by it.
\<close>

record path_api =
  sep :: string
  extname :: "string \<Rightarrow> string"
  basename :: "string \<Rightarrow> string \<Rightarrow> string"
  dirname :: "string \<Rightarrow> string"
  join :: "string list \<Rightarrow> string"
  resolve :: "string \<Rightarrow> string"

subsection \<open>The POSIX variant of the path module\<close>

text \<open>
  A functional reading of the POSIX implementation of the runtime's path module, used
  to evaluate the program on concrete paths. A path is cut at \<open>/\<close>; trailing slashes
  do not belong to the last segment.
\<close>

definition is_slash :: "char \<Rightarrow> bool" where
  "is_slash c = (c = CHR ''/'')"

definition strip_slashes :: "string \<Rightarrow> string" where
  "strip_slashes p = rev (dropWhile is_slash (rev p))"

definition last_segment :: "string \<Rightarrow> string" where
  "last_segment p = rev (takeWhile (\<lambda>c. \<not> is_slash c) (dropWhile is_slash (rev p)))"

fun last_dot :: "string \<Rightarrow> nat option" where
  "last_dot [] = None"
| "last_dot (c # cs) =
     (case last_dot cs of
        Some i \<Rightarrow> Some (Suc i)
      | None \<Rightarrow> if c = CHR ''.'' then Some 0 else None)"

definition posix_extname :: "string \<Rightarrow> string" where
  "posix_extname p =
     (let seg = last_segment p in
      case last_dot seg of
        None \<Rightarrow> []
      | Some i \<Rightarrow> if i = 0 \<or> seg = ''..'' then [] else drop i seg)"

definition is_suffix :: "string \<Rightarrow> string \<Rightarrow> bool" where
  "is_suffix s t = (length s \<le> length t \<and> drop (length t - length s) t = s)"

definition posix_basename :: "string \<Rightarrow> string \<Rightarrow> string" where
  "posix_basename p ext =
     (let seg = last_segment p in
      if ext \<noteq> [] \<and> length ext \<le> length p then
        if ext = p then []
        else if seg = [] then p
        else if is_suffix ext seg then
          (if seg = ext then seg else take (length seg - length ext) seg)
        else if is_suffix seg ext then seg @ drop (length (strip_slashes p)) p
        else seg
      else seg)"

definition posix_dirname :: "string \<Rightarrow> string" where
  "posix_dirname p =
     (case p of
        [] \<Rightarrow> ''.''
      | c # t \<Rightarrow>
          (case dropWhile (\<lambda>c. \<not> is_slash c) (dropWhile is_slash (rev t)) of
             [] \<Rightarrow> if is_slash c then ''/'' else ''.''
           | s # r \<Rightarrow> if is_slash c \<and> r = [] then ''//'' else c # rev r))"

fun split_slash :: "string \<Rightarrow> string list" where
  "split_slash [] = [[]]"
| "split_slash (c # cs) =
     (if is_slash c then [] # split_slash cs
      else (case split_slash cs of
              [] \<Rightarrow> [[c]]
            | s # ss \<Rightarrow> (c # s) # ss))"

text \<open>
  \<open>normalize_segments\<close> keeps the resolved segments in reverse order: the head is
  the segment added last.
\<close>

fun normalize_segments :: "bool \<Rightarrow> string list \<Rightarrow> string list \<Rightarrow> string list" where
  "normalize_segments allowAboveRoot res [] = rev res"
| "normalize_segments allowAboveRoot res (s # ss) =
     (if s = [] \<or> s = ''.'' then normalize_segments allowAboveRoot res ss
      else if s = ''..'' then
        (case res of
           r # rs \<Rightarrow>
             if r = ''..'' then normalize_segments allowAboveRoot (''..'' # res) ss
             else normalize_segments allowAboveRoot rs ss
         | [] \<Rightarrow>
             if allowAboveRoot then normalize_segments allowAboveRoot [''..''] ss
             else normalize_segments allowAboveRoot [] ss)
      else normalize_segments allowAboveRoot (s # res) ss)"

fun join_slash :: "string list \<Rightarrow> string" where
  "join_slash [] = []"
| "join_slash [s] = s"
| "join_slash (s # ss) = s @ ''/'' @ join_slash ss"

definition posix_normalize :: "string \<Rightarrow> string" where
  "posix_normalize p =
     (if p = [] then ''.''
      else
        let isAbsolute = is_slash (hd p);
            trailingSeparator = is_slash (last p);
            q = join_slash (normalize_segments (\<not> isAbsolute) [] (split_slash p))
        in if q = [] then
             (if isAbsolute then ''/'' else if trailingSeparator then ''./'' else ''.'')
           else
             (let q' = (if trailingSeparator then q @ ''/'' else q)
              in if isAbsolute then ''/'' @ q' else q'))"

definition posix_join :: "string list \<Rightarrow> string" where
  "posix_join args =
     (case filter (\<lambda>a. a \<noteq> []) args of
        [] \<Rightarrow> ''.''
      | joined \<Rightarrow> posix_normalize (join_slash joined))"

definition posix_resolve :: "string \<Rightarrow> string \<Rightarrow> string" where
  "posix_resolve cwd p =
     (let resolvedPath = (if p \<noteq> [] \<and> is_slash (hd p) then p else cwd @ ''/'' @ p)
      in ''/'' @ join_slash (normalize_segments False [] (split_slash resolvedPath)))"

text \<open>The module of a process whose working directory is \<open>/work\<close>.\<close>

definition posix :: path_api where
  "posix = \<lparr> sep = ''/'', extname = posix_extname, basename = posix_basename,
             dirname = posix_dirname, join = posix_join, resolve = posix_resolve ''/work'' \<rparr>"

section \<open>Replacing a file extension (src/utils/file.utils.ts)\<close>

text \<open>
  \<open>replaceExt\<close> is declared for strings but checks the type of its argument when it
  runs, so its argument is a value of the language.
\<close>

datatype jsval = JUndefined | JNull | JBool bool | JNum int | JStr string

definition startsWithSingleDot :: "path_api \<Rightarrow> string \<Rightarrow> bool" where
  "startsWithSingleDot P fpath =
     (let first2chars = take 2 fpath
      in first2chars = ''.'' @ sep P \<or> first2chars = ''./'')"

fun replaceExt :: "path_api \<Rightarrow> jsval \<Rightarrow> string \<Rightarrow> jsval" where
  "replaceExt P (JStr npath) ext =
     (if length npath = 0 then JStr npath
      else
        let nFileName = basename P npath (extname P npath) @ ext;
            nFilepath = join P [dirname P npath, nFileName]
        in if startsWithSingleDot P npath then JStr (''.'' @ sep P @ nFilepath)
           else JStr nFilepath)"
| "replaceExt P npath ext = npath"

text \<open>
  The callers inside the program pass a string and use the result as a string.
\<close>

definition replaceExt_str :: "path_api \<Rightarrow> string \<Rightarrow> string \<Rightarrow> string" where
  "replaceExt_str P npath ext =
     (case replaceExt P (JStr npath) ext of JStr r \<Rightarrow> r | _ \<Rightarrow> npath)"

section \<open>Objects, their property order, and sorting\<close>

text \<open>
  An object of the language is a list of its own properties in the order of their
  creation, with distinct keys. Enumeration (\<open>Object.entries\<close>, serialisation, any
  later traversal) does not follow the creation order alone: keys that are array
  indices (canonical decimal numerals below \<open>2^32 - 1\<close>) come first, in ascending
  numeric order, and the other keys follow in creation order.
\<close>

type_synonym 'v jsobject = "(string \<times> 'v) list"

definition is_digit :: "char \<Rightarrow> bool" where
  "is_digit c = (c \<in> set ''0123456789'')"

definition decimal_value :: "string \<Rightarrow> int" where
  "decimal_value s = foldl (\<lambda>n c. 10 * n + (of_char c - 48)) 0 s"

definition is_array_index :: "string \<Rightarrow> bool" where
  "is_array_index s =
     (s \<noteq> [] \<and> list_all is_digit s \<and> (s = ''0'' \<or> hd s \<noteq> CHR ''0'') \<and>
      decimal_value s < 2 ^ 32 - 1)"

definition Object_entries :: "'v jsobject \<Rightarrow> (string \<times> 'v) list" where
  "Object_entries obj =
     sort_key (\<lambda>e. decimal_value (fst e)) (filter (\<lambda>e. is_array_index (fst e)) obj) @
     filter (\<lambda>e. \<not> is_array_index (fst e)) obj"

fun set_property :: "string \<Rightarrow> 'v \<Rightarrow> 'v jsobject \<Rightarrow> 'v jsobject" where
  "set_property k v [] = [(k, v)]"
| "set_property k v (e # obj) =
     (if fst e = k then (k, v) # obj else e # set_property k v obj)"

definition Object_fromEntries :: "(string \<times> 'v) list \<Rightarrow> 'v jsobject" where
  "Object_fromEntries es = foldl (\<lambda>obj e. set_property (fst e) (snd e) obj) [] es"

text \<open>
  \<open>Array.prototype.sort\<close> with a comparison function: a stable sort. An element goes
  before the first element that the comparison does not put before it.
\<close>

fun insert_by :: "('a \<Rightarrow> 'a \<Rightarrow> int) \<Rightarrow> 'a \<Rightarrow> 'a list \<Rightarrow> 'a list" where
  "insert_by cmp x [] = [x]"
| "insert_by cmp x (y # ys) =
     (if cmp x y \<le> 0 then x # y # ys else y # insert_by cmp x ys)"

definition Array_sort :: "('a \<Rightarrow> 'a \<Rightarrow> int) \<Rightarrow> 'a list \<Rightarrow> 'a list" where
  "Array_sort cmp xs = foldr (insert_by cmp) xs []"

text \<open>
  A comparison of strings by their code units, which is how every collation orders
  strings of decimal digits and of unaccented letters of one case; it stands for
  \<open>localeCompare\<close> when the program is evaluated on such names.
\<close>

fun codeunit_compare :: "string \<Rightarrow> string \<Rightarrow> int" where
  "codeunit_compare [] [] = 0"
| "codeunit_compare [] (b # bs) = - 1"
| "codeunit_compare (a # as) [] = 1"
| "codeunit_compare (a # as) (b # bs) =
     (if (of_char a :: nat) < of_char b then - 1
      else if (of_char b :: nat) < of_char a then 1
      else codeunit_compare as bs)"

section \<open>The program (the class Program)\<close>

subsection \<open>Data\<close>

text \<open>
  Modelled from the spec: the interface \<open>IOptions\<close> (utils/types) is not among the
  sources. Its fields are the options of the command line that the specification
  lists (single file or folder, output path, prefix, formatting, sorting, JSON dump,
  watch mode, verbose logging), under the names that the program reads.
  \<open>folder\<close> is a string that may be absent; the program only tests whether it is
  truthy, and the empty string stands for the absent one. \<open>output_path\<close> is the
  option \<open>output\<close> and \<open>sort_opt\<close> the option \<open>sort\<close>.
\<close>

record options =
  cds :: string
  output_path :: string
  prefix :: string
  json :: bool
  debug :: bool
  format :: bool
  sort_opt :: bool
  folder :: string
  watch :: bool

definition truthy :: "string \<Rightarrow> bool" where
  "truthy s = (s \<noteq> [])"

text \<open>
  Modelled from the spec: the interface \<open>ICsn\<close> (utils/cds.types) is not among the
  sources. The compiled schema holds \<open>definitions\<close>, a mapping from qualified names
  to definitions; what a definition is plays no role in the program.
\<close>

record 'd icsn =
  definitions :: "'d jsobject"

text \<open>
  Modelled from the spec: the interface \<open>IParsed\<close> (utils/types) is not among the
  sources. The parsed schema holds the namespace groups, the service groups and the
  root-level definitions; the program tests each of the three for presence. A group
  has a name and its definitions (\<open>name\<close> and \<open>definitions\<close> in the program).
\<close>

record 'defs group =
  group_name :: string
  group_definitions :: 'defs

record 'defs iparsed =
  namespaces :: "'defs group list option"
  services :: "'defs group list option"
  parsed_definitions :: "'defs option"

text \<open>
  Modelled from the spec: the class \<open>Namespace\<close> (types/namespace) is not among the
  sources. An instance is what its constructor receives: the definitions, the
  interface prefix, and the name when there is one; its methods \<open>getTypes\<close> and
  \<open>generateCode\<close> are collaborators of the program (below).
\<close>

record 'defs namespace =
  ns_definitions :: 'defs
  ns_interfacePrefix :: string
  ns_name :: "string option"

definition new_Namespace :: "'defs \<Rightarrow> string \<Rightarrow> string option \<Rightarrow> 'defs namespace" where
  "new_Namespace ds interfacePrefix n =
     \<lparr> ns_definitions = ds, ns_interfacePrefix = interfacePrefix, ns_name = n \<rparr>"

datatype formatter = PrettierFormatter string | NoopFormatter string

text \<open>
  The collaborators of the program: the schema compiler, the parser of the compiled
  schema, the methods of \<open>Namespace\<close>, the formatter, the source file of the code
  writer, and the runtime. Each is a function of its arguments. \<open>cds_load\<close> is the
  compiled schema of a path, as \<open>JSON.parse(cds.compile.to.json(await cds.load(path)))\<close>
  yields it; the schema sources do not change while the program runs.
\<close>

record ('d, 'defs, 'ty, 'src, 'set) env =
  paths :: path_api
  cds_load :: "string \<Rightarrow> 'd icsn"
  localeCompare :: "string \<Rightarrow> string \<Rightarrow> int"
  JSON_stringify :: "'d icsn \<Rightarrow> string"
  CDSParser_parse :: "'d icsn \<Rightarrow> 'defs iparsed"
  Namespace_getTypes :: "'defs namespace \<Rightarrow> 'ty list"
  Namespace_generateCode :: "'defs namespace \<Rightarrow> 'ty list \<Rightarrow> 'src \<Rightarrow> 'src"
  getSettings :: "formatter \<Rightarrow> 'set"
  formatter_format :: "formatter \<Rightarrow> string \<Rightarrow> string"
  createSourceFile :: "'set \<Rightarrow> string \<Rightarrow> 'src"
  formatText :: "'src \<Rightarrow> 'src"
  getFullText :: "'src \<Rightarrow> string"
  readdirSync :: "string \<Rightarrow> string list"

text \<open>
  What the program changes outside itself. The file system holds, for every resolved
  path, the file with its content or the directory that is there, and the resolved
  paths to which access is denied. The world also keeps the calls of
  \<open>fs.writeFileSync\<close> and \<open>fs.writeFile\<close> that succeeded, with the path and the
  data they were given, the lines printed, the exit code once \<open>process.exit\<close> was
  called, and the error once a call of the file system has thrown. The program
  catches no error and runs nothing after \<open>process.exit\<close>: a world that has exited
  or thrown is not changed any more by the program.
\<close>

datatype node = File string | Dir

datatype fs_error = ENOENT | ENOTDIR | EISDIR | EACCES

record world =
  nodes :: "string \<Rightarrow> node option"
  denied :: "string set"
  writes :: "(string \<times> string) list"
  console :: "string list"
  exited :: "int option"
  thrown :: "fs_error option"

definition alive :: "world \<Rightarrow> bool" where
  "alive w = (exited w = None \<and> thrown w = None)"

definition existsSync :: "path_api \<Rightarrow> world \<Rightarrow> string \<Rightarrow> bool" where
  "existsSync P w p = (nodes w (resolve P p) \<noteq> None)"

text \<open>
  The directories above a resolved path, nearest first; the number bounds the search,
  and the length of the path is enough. A path is inside a directory that is above it.
\<close>

fun ancestors :: "path_api \<Rightarrow> nat \<Rightarrow> string \<Rightarrow> string list" where
  "ancestors P 0 q = []"
| "ancestors P (Suc n) q = dirname P q # ancestors P n (dirname P q)"

definition inside :: "path_api \<Rightarrow> string \<Rightarrow> string \<Rightarrow> bool" where
  "inside P d q = (d \<in> set (ancestors P (length q) q))"

text \<open>What is found first, looking from a resolved path upwards.\<close>

fun nearest_node :: "path_api \<Rightarrow> world \<Rightarrow> nat \<Rightarrow> string \<Rightarrow> node option" where
  "nearest_node P w 0 d = nodes w d"
| "nearest_node P w (Suc n) d =
     (case nodes w d of
        Some x \<Rightarrow> Some x
      | None \<Rightarrow> nearest_node P w n (dirname P d))"

text \<open>
  Why a file cannot be written at a path, if it cannot: the directory of the path is
  missing (\<open>ENOENT\<close>) or a regular file is in its place or above it (\<open>ENOTDIR\<close>),
  the path itself is a directory (\<open>EISDIR\<close>), the path ends with a separator and
  so names a directory (\<open>ENOTDIR\<close> when a file is there, \<open>EISDIR\<close> when nothing
  is), or access is denied to the file that is there, or to the directory when the
  file is new (\<open>EACCES\<close>).
\<close>

definition ends_with_sep :: "path_api \<Rightarrow> string \<Rightarrow> bool" where
  "ends_with_sep P p =
     (length (sep P) \<le> length p \<and> sep P \<noteq> [] \<and> drop (length p - length (sep P)) p = sep P)"

definition write_error :: "path_api \<Rightarrow> world \<Rightarrow> string \<Rightarrow> fs_error option" where
  "write_error P w p =
     (let q = resolve P p; d = dirname P q
      in case nodes w d of
           None \<Rightarrow>
             (case nearest_node P w (length d) d of
                Some (File c) \<Rightarrow> Some ENOTDIR
              | _ \<Rightarrow> Some ENOENT)
         | Some (File c) \<Rightarrow> Some ENOTDIR
         | Some Dir \<Rightarrow>
             (case nodes w q of
                Some Dir \<Rightarrow> Some EISDIR
              | Some (File c) \<Rightarrow>
                  if ends_with_sep P p then Some ENOTDIR
                  else if q \<in> denied w then Some EACCES else None
              | None \<Rightarrow>
                  if ends_with_sep P p then Some EISDIR
                  else if d \<in> denied w then Some EACCES else None))"

text \<open>
  \<open>fs.writeFileSync\<close> and the awaited \<open>fs.writeFile\<close>: the file is written, or the
  error is thrown and nothing is written.
\<close>

definition writeFile :: "path_api \<Rightarrow> string \<Rightarrow> string \<Rightarrow> world \<Rightarrow> world" where
  "writeFile P p s w =
     (case write_error P w p of
        Some e \<Rightarrow> w\<lparr> thrown := Some e \<rparr>
      | None \<Rightarrow>
          w\<lparr> nodes := (nodes w)(resolve P p \<mapsto> File s), writes := writes w @ [(p, s)] \<rparr>)"

text \<open>
  \<open>fs.removeSync\<close> removes what is at the path together with everything inside it,
  and does nothing when nothing is there. Access rights are taken into account for
  writing only: removing is permitted wherever the program removes.
\<close>

definition removeSync :: "path_api \<Rightarrow> string \<Rightarrow> world \<Rightarrow> world" where
  "removeSync P p w =
     w\<lparr> nodes := (\<lambda>x. if x = resolve P p \<or> inside P (resolve P p) x then None
                        else nodes w x) \<rparr>"

definition print :: "string \<Rightarrow> world \<Rightarrow> world" where
  "print line w = w\<lparr> console := console w @ [line] \<rparr>"

definition process_exit :: "int \<Rightarrow> world \<Rightarrow> world" where
  "process_exit code w = w\<lparr> exited := Some code \<rparr>"

definition quoted :: "string \<Rightarrow> string" where
  "quoted s = [CHR 0x27] @ s @ [CHR 0x27]"

subsection \<open>Loading the compiled schema\<close>

definition loadCdsAndConvertToJSON ::
  "('d, 'defs, 'ty, 'src, 'set) env \<Rightarrow> string \<Rightarrow> bool \<Rightarrow> 'd icsn" where
  "loadCdsAndConvertToJSON E path sort_on =
     (let result = cds_load E path
      in if sort_on then
           result\<lparr> definitions :=
             Object_fromEntries
               (Array_sort (\<lambda>key val. localeCompare E (fst key) (fst val))
                  (Object_entries (definitions result))) \<rparr>
         else result)"

subsection \<open>Generating the code\<close>

text \<open>
  The loop over the groups: the type list is computed again for every group, from all
  the groups, and handed to the group's own \<open>generateCode\<close>.
\<close>

fun generate_each ::
  "('d, 'defs, 'ty, 'src, 'set) env \<Rightarrow> 'defs namespace list \<Rightarrow> 'defs namespace list \<Rightarrow>
     'src \<Rightarrow> 'src" where
  "generate_each E nss [] source = source"
| "generate_each E nss (n # rest) source =
     (let types = concat (map (Namespace_getTypes E) nss)
      in generate_each E nss rest (Namespace_generateCode E n types source))"

definition generateCode ::
  "('d, 'defs, 'ty, 'src, 'set) env \<Rightarrow> 'src \<Rightarrow> 'defs iparsed \<Rightarrow> string \<Rightarrow> 'src" where
  "generateCode E source parsed interfacePrefix =
     (let nss0 = [];
          nss1 = (case namespaces parsed of
                    Some gs \<Rightarrow>
                      nss0 @ map (\<lambda>n. new_Namespace (group_definitions n) interfacePrefix
                                         (Some (group_name n))) gs
                  | None \<Rightarrow> nss0);
          nss2 = (case services parsed of
                    Some gs \<Rightarrow>
                      nss1 @ map (\<lambda>s. new_Namespace (group_definitions s) interfacePrefix
                                         (Some (group_name s))) gs
                  | None \<Rightarrow> nss1);
          nss3 = (case parsed_definitions parsed of
                    Some ds \<Rightarrow> nss2 @ [new_Namespace ds interfacePrefix None]
                  | None \<Rightarrow> nss2)
      in generate_each E nss3 nss3 source)"

subsection \<open>Writing the source\<close>

definition writeSource :: "path_api \<Rightarrow> string \<Rightarrow> string \<Rightarrow> world \<Rightarrow> world" where
  "writeSource P filepath source w =
     (let dir = dirname P filepath
      in if existsSync P w dir then
           (let w' = writeFile P filepath source w
            in if thrown w' \<noteq> None then w'
               else print (''Wrote types to '' @ quoted filepath) w')
         else
           process_exit (- 1)
             (print (''Unable to write types: '' @ quoted dir @ '' is not a valid directory'') w))"

subsection \<open>Processing one file\<close>

definition createFormatter :: "options \<Rightarrow> formatter" where
  "createFormatter opts =
     (if format opts then PrettierFormatter (output_path opts)
      else NoopFormatter (output_path opts))"

definition processFile ::
  "('d, 'defs, 'ty, 'src, 'set) env \<Rightarrow> options \<Rightarrow> world \<Rightarrow> world" where
  "processFile E opts w =
     (let w1 = print (''Processing file '' @ cds opts) w;
          jsonObj = loadCdsAndConvertToJSON E (cds opts) (sort_opt opts);
          w2 = (if json opts
                then writeFile (paths E) (output_path opts @ ''.json'') (JSON_stringify E jsonObj) w1
                else w1)
      in if thrown w2 \<noteq> None then w2
         else
           let parsed = CDSParser_parse E jsonObj;
               w3 = (if existsSync (paths E) w2 (output_path opts)
                     then removeSync (paths E) (output_path opts) w2
                     else w2);
               fmt = createFormatter opts;
               settings = getSettings E fmt;
               source = createSourceFile E settings (output_path opts);
               source' = generateCode E source parsed (prefix opts);
               text = getFullText E (formatText E source');
               formattedText = formatter_format E fmt text
           in writeSource (paths E) (output_path opts) formattedText w3)"

subsection \<open>Processing the files of a folder\<close>

fun processFiles_loop ::
  "('d, 'defs, 'ty, 'src, 'set) env \<Rightarrow> options \<Rightarrow> string list \<Rightarrow> world \<Rightarrow> world" where
  "processFiles_loop E opts [] w = w"
| "processFiles_loop E opts (filePath # rest) w =
     (if \<not> alive w then w
      else if extname (paths E) filePath = ''.cds'' then
        (let cds' = join (paths E) [folder opts, filePath];
             newOptions = opts\<lparr> cds := cds',
                                 output_path := replaceExt_str (paths E) cds' ''.ts'' \<rparr>
         in processFiles_loop E opts rest (processFile E newOptions w))
      else processFiles_loop E opts rest w)"

definition processFiles ::
  "('d, 'defs, 'ty, 'src, 'set) env \<Rightarrow> options \<Rightarrow> world \<Rightarrow> world" where
  "processFiles E opts w =
     (let filesToConvert = readdirSync E (folder opts)
      in processFiles_loop E opts filesToConvert w)"

subsection \<open>Watching\<close>

text \<open>
  The watcher of the file system is a collaborator: it holds the search string it was
  created with and the listeners registered on it, and it calls the listeners of an
  event, in the order of their registration, with the path of the file.
\<close>

datatype event_name = Add | Change

record watcher =
  searchString :: string
  listeners :: "(event_name \<times> (string \<Rightarrow> world \<Rightarrow> world)) list"

definition chokidar_watch :: "string \<Rightarrow> watcher" where
  "chokidar_watch s = \<lparr> searchString = s, listeners = [] \<rparr>"

definition on ::
  "event_name \<Rightarrow> (string \<Rightarrow> world \<Rightarrow> world) \<Rightarrow> watcher \<Rightarrow> watcher" where
  "on ev listener wt = wt\<lparr> listeners := listeners wt @ [(ev, listener)] \<rparr>"

fun call_listeners ::
  "(event_name \<times> (string \<Rightarrow> world \<Rightarrow> world)) list \<Rightarrow> event_name \<Rightarrow> string \<Rightarrow> world \<Rightarrow> world" where
  "call_listeners [] ev filePath w = w"
| "call_listeners ((ev', listener) # ls) ev filePath w =
     (if \<not> alive w then w
      else if ev' = ev then call_listeners ls ev filePath (listener filePath w)
      else call_listeners ls ev filePath w)"

definition emit :: "watcher \<Rightarrow> event_name \<Rightarrow> string \<Rightarrow> world \<Rightarrow> world" where
  "emit wt ev filePath w = call_listeners (listeners wt) ev filePath w"

text \<open>
  \<open>createWatcher\<close> calls the method \<open>processFile\<close> of the program from its
  listeners. \<open>createWatcher_with\<close> is \<open>createWatcher\<close> with that method as a
  parameter, so that what a listener hands to the method can be observed;
  \<open>createWatcher\<close> is its instance for the method of the program.
\<close>

definition createWatcher_with ::
  "(options \<Rightarrow> world \<Rightarrow> world) \<Rightarrow> path_api \<Rightarrow> options \<Rightarrow> world \<Rightarrow> world \<times> watcher option" where
  "createWatcher_with this_processFile P opts w =
     (if \<not> watch opts then (w, None)
      else
        let searchString0 = cds opts;
            searchString1 = (if truthy (folder opts) then folder opts @ ''/*.cds''
                             else searchString0);
            watcher0 = chokidar_watch searchString1;
            watcher1 =
              (if truthy (folder opts) then
                 on Add
                   (\<lambda>filePath w'.
                      let w'' = print (''File '' @ filePath @ '' has been added!'') w';
                          newOptions = opts\<lparr> cds := filePath,
                            output_path := replaceExt_str P filePath ''.ts'' \<rparr>
                      in this_processFile newOptions w'')
                   watcher0
               else watcher0);
            watcher2 =
              on Change
                (\<lambda>filePath w'.
                   let w'' = print (''File '' @ filePath @ '' has been changed!'') w';
                       newOptions = opts\<lparr> cds := filePath,
                         output_path := replaceExt_str P filePath ''.ts'' \<rparr>
                   in this_processFile newOptions w'')
                watcher1
        in (print (''Watching for changes with rule: '' @ searchString1) w, Some watcher2))"

definition createWatcher ::
  "('d, 'defs, 'ty, 'src, 'set) env \<Rightarrow> options \<Rightarrow> world \<Rightarrow> world \<times> watcher option" where
  "createWatcher E opts w = createWatcher_with (processFile E) (paths E) opts w"

definition run ::
  "('d, 'defs, 'ty, 'src, 'set) env \<Rightarrow> options \<Rightarrow> world \<Rightarrow> world \<times> watcher option" where
  "run E opts w =
     (let w' = (if truthy (folder opts) then processFiles E opts w else processFile E opts w)
      in if \<not> alive w' then (w', None) else createWatcher E opts w')"

text \<open>
  The reaction of a program in watch mode to one event of the watcher: the listeners
  that \<open>createWatcher\<close> registered for these options are called.
\<close>

definition react_with ::
  "(options \<Rightarrow> world \<Rightarrow> world) \<Rightarrow> path_api \<Rightarrow> options \<Rightarrow> event_name \<Rightarrow> string \<Rightarrow> world \<Rightarrow> world" where
  "react_with this_processFile P opts ev filePath w =
     (case snd (createWatcher_with this_processFile P opts w) of
        None \<Rightarrow> w
      | Some wt \<Rightarrow> emit wt ev filePath w)"

definition react ::
  "('d, 'defs, 'ty, 'src, 'set) env \<Rightarrow> options \<Rightarrow> event_name \<Rightarrow> string \<Rightarrow> world \<Rightarrow> world" where
  "react E opts ev filePath w = react_with (processFile E) (paths E) opts ev filePath w"

section \<open>Notions used to state the properties\<close>

text \<open>
  The groups of a parsed schema, as instances of \<open>Namespace\<close>: those of the
  namespaces, those of the services, and the one of the root-level definitions.
\<close>

definition namespace_groups :: "'defs iparsed \<Rightarrow> string \<Rightarrow> 'defs namespace list" where
  "namespace_groups parsed interfacePrefix =
     (case namespaces parsed of
        None \<Rightarrow> []
      | Some gs \<Rightarrow>
          map (\<lambda>n. new_Namespace (group_definitions n) interfacePrefix (Some (group_name n))) gs)"

definition service_groups :: "'defs iparsed \<Rightarrow> string \<Rightarrow> 'defs namespace list" where
  "service_groups parsed interfacePrefix =
     (case services parsed of
        None \<Rightarrow> []
      | Some gs \<Rightarrow>
          map (\<lambda>s. new_Namespace (group_definitions s) interfacePrefix (Some (group_name s))) gs)"

definition root_groups :: "'defs iparsed \<Rightarrow> string \<Rightarrow> 'defs namespace list" where
  "root_groups parsed interfacePrefix =
     (case parsed_definitions parsed of
        None \<Rightarrow> []
      | Some ds \<Rightarrow> [new_Namespace ds interfacePrefix None])"

definition all_groups :: "'defs iparsed \<Rightarrow> string \<Rightarrow> 'defs namespace list" where
  "all_groups parsed interfacePrefix =
     namespace_groups parsed interfacePrefix @ service_groups parsed interfacePrefix @
     root_groups parsed interfacePrefix"

text \<open>The types of all the groups of a parsed schema, group after group.\<close>

definition all_types ::
  "('d, 'defs, 'ty, 'src, 'set) env \<Rightarrow> 'defs iparsed \<Rightarrow> string \<Rightarrow> 'ty list" where
  "all_types E parsed interfacePrefix =
     concat (map (Namespace_getTypes E) (all_groups parsed interfacePrefix))"

text \<open>Emitting a list of groups into a source, one after the other, with one type list.\<close>

definition emit_groups ::
  "('d, 'defs, 'ty, 'src, 'set) env \<Rightarrow> 'ty list \<Rightarrow> 'defs namespace list \<Rightarrow> 'src \<Rightarrow> 'src" where
  "emit_groups E types gs source =
     foldl (\<lambda>src n. Namespace_generateCode E n types src) source gs"

text \<open>
  A \<open>generateCode\<close> of \<open>Namespace\<close> that only records the call: the source is the
  list of the calls made so far, each with its group and the type list it received.
\<close>

definition record_call ::
  "'defs namespace \<Rightarrow> 'ty list \<Rightarrow> ('defs namespace \<times> 'ty list) list \<Rightarrow>
     ('defs namespace \<times> 'ty list) list" where
  "record_call n types calls = calls @ [(n, types)]"

text \<open>
  The order of a comparison function, and what makes it usable for sorting: any two
  elements are comparable, and the order is transitive.
\<close>

definition before :: "('a \<Rightarrow> 'a \<Rightarrow> int) \<Rightarrow> 'a \<Rightarrow> 'a \<Rightarrow> bool" where
  "before cmp a b = (cmp a b \<le> 0)"

definition consistent :: "('a \<Rightarrow> 'a \<Rightarrow> int) \<Rightarrow> bool" where
  "consistent cmp =
     ((\<forall>a b. before cmp a b \<or> before cmp b a) \<and>
      (\<forall>a b c. before cmp a b \<and> before cmp b c \<longrightarrow> before cmp a c))"

definition by_key :: "(string \<Rightarrow> string \<Rightarrow> int) \<Rightarrow> string \<times> 'v \<Rightarrow> string \<times> 'v \<Rightarrow> int" where
  "by_key cmp e1 e2 = cmp (fst e1) (fst e2)"


definition event_options :: "path_api \<Rightarrow> options \<Rightarrow> string \<Rightarrow> options" where
  "event_options P opts filePath =
     opts\<lparr> cds := filePath, output_path := replaceExt_str P filePath ''.ts'' \<rparr>"


text \<open>
  The text that the pipeline produces for given options: the compiled schema of the
  file is loaded, parsed, turned into code in a fresh source file, and formatted.
\<close>

definition pipeline_text :: "('d, 'defs, 'ty, 'src, 'set) env \<Rightarrow> options \<Rightarrow> string" where
  "pipeline_text E opts =
     formatter_format E (createFormatter opts)
       (getFullText E (formatText E
          (generateCode E
             (createSourceFile E (getSettings E (createFormatter opts)) (output_path opts))
             (CDSParser_parse E (loadCdsAndConvertToJSON E (cds opts) (sort_opt opts)))
             (prefix opts))))"

text \<open>
  The world of a run after its first steps: the progress line is printed and the dump,
  if requested, is written or has thrown.
\<close>

definition after_dump ::
  "('d, 'defs, 'ty, 'src, 'set) env \<Rightarrow> options \<Rightarrow> world \<Rightarrow> world" where
  "after_dump E opts w =
     (if json opts
      then writeFile (paths E) (output_path opts @ ''.json'')
             (JSON_stringify E (loadCdsAndConvertToJSON E (cds opts) (sort_opt opts)))
             (print (''Processing file '' @ cds opts) w)
      else print (''Processing file '' @ cds opts) w)"

text \<open>The exit status that the operating system reports for an exit code.\<close>

definition exit_status :: "int \<Rightarrow> int" where
  "exit_status code = code mod 256"

section \<open>A sample environment\<close>

text \<open>
  Concrete collaborators on which the program can be evaluated: a definition is the
  name of its kind, the definitions of a group and its types are lists of qualified
  names, a source is the list of the lines written into it. The compiled schema of a
  path declares names that start with the path, so that the schemas of two files have
  nothing in common.
\<close>

definition sample_parse :: "string icsn \<Rightarrow> string list iparsed" where
  "sample_parse c =
     \<lparr> namespaces =
         Some [\<lparr> group_name = ''model'',
                 group_definitions =
                   map fst (filter (\<lambda>e. snd e = ''entity'') (Object_entries (definitions c))) \<rparr>],
       services = None,
       parsed_definitions =
         Some (map fst (filter (\<lambda>e. snd e \<noteq> ''entity'') (Object_entries (definitions c)))) \<rparr>"

definition sample_generate ::
  "string list namespace \<Rightarrow> string list \<Rightarrow> string list \<Rightarrow> string list" where
  "sample_generate n types src =
     src @ [(case ns_name n of None \<Rightarrow> ''root'' | Some s \<Rightarrow> ''namespace '' @ s) @ '';'']
         @ map (\<lambda>d. ns_interfacePrefix n @ d @ '';'') (ns_definitions n)"

definition sample_env :: "(string, string list, string, string list, unit) env" where
  "sample_env =
     \<lparr> paths = posix,
       cds_load = (\<lambda>p. \<lparr> definitions = [(p @ '':Order'', ''entity''), (p @ '':Amount'', ''type'')] \<rparr>),
       localeCompare = codeunit_compare,
       JSON_stringify = (\<lambda>c. concat (map (\<lambda>e. fst e @ ''='' @ snd e @ '';'') (Object_entries (definitions c)))),
       CDSParser_parse = sample_parse,
       Namespace_getTypes = ns_definitions,
       Namespace_generateCode = sample_generate,
       getSettings = (\<lambda>f. ()),
       formatter_format = (\<lambda>f t. case f of PrettierFormatter p \<Rightarrow> t @ ''//'' | NoopFormatter p \<Rightarrow> t),
       createSourceFile = (\<lambda>s p. []),
       formatText = (\<lambda>src. src),
       getFullText = concat,
       readdirSync = (\<lambda>d. [''a.cds'', ''notes.txt'', ''b.cds'']) \<rparr>"

text \<open>The same collaborators, with a source file that records the calls made on it.\<close>

definition recording_env ::
  "(string, string list, string, (string list namespace \<times> string list) list, unit) env" where
  "recording_env =
     \<lparr> paths = posix,
       cds_load = cds_load sample_env,
       localeCompare = codeunit_compare,
       JSON_stringify = JSON_stringify sample_env,
       CDSParser_parse = sample_parse,
       Namespace_getTypes = ns_definitions,
       Namespace_generateCode = record_call,
       getSettings = (\<lambda>f. ()),
       formatter_format = (\<lambda>f t. t),
       createSourceFile = (\<lambda>s p. []),
       formatText = (\<lambda>src. src),
       getFullText = (\<lambda>calls. concat (map (\<lambda>c. concat (ns_definitions (fst c))) calls)),
       readdirSync = (\<lambda>d. []) \<rparr>"

definition sample_options :: options where
  "sample_options =
     \<lparr> cds = ''srv/a.cds'', output_path = ''srv/a.ts'', prefix = ''I'', json = False,
       debug = False, format = False, sort_opt = False, folder = [], watch = True \<rparr>"

text \<open>
  A program that prints the options it is handed, in place of the method
  \<open>processFile\<close>.
\<close>

definition show_flag :: "bool \<Rightarrow> string" where
  "show_flag b = (if b then ''1'' else ''0'')"

definition show_options :: "options \<Rightarrow> world \<Rightarrow> world" where
  "show_options opts w =
     print (cds opts @ '','' @ output_path opts @ '','' @ prefix opts @ '','' @
            show_flag (json opts) @ show_flag (debug opts) @ show_flag (format opts) @
            show_flag (sort_opt opts) @ '','' @ folder opts @ '','' @ show_flag (watch opts)) w"

text \<open>
  A world in which the folder \<open>/work/srv\<close> holds two schema files and a text file,
  \<open>/work/srv/lib\<close> is a directory, and access to the directory \<open>/work/vault\<close> is
  denied.
\<close>

definition sample_world :: world where
  "sample_world =
     \<lparr> nodes = map_of
         [(''/'', Dir), (''/work'', Dir), (''/work/srv'', Dir), (''/work/srv/lib'', Dir),
          (''/work/vault'', Dir),
          (''/work/srv/a.cds'', File ''entity Order''), (''/work/srv/b.cds'', File ''entity Order''),
          (''/work/srv/notes.txt'', File ''notes'')],
       denied = {''/work/vault''},
       writes = [], console = [], exited = None, thrown = None \<rparr>"

section \<open>Properties\<close>

lemmas sample_simps =
  sample_env_def sample_parse_def sample_generate_def Object_entries_def is_array_index_def
  is_digit_def decimal_value_def new_Namespace_def

lemmas posix_simps =
  posix_def posix_extname_def posix_basename_def posix_dirname_def posix_join_def
  posix_normalize_def posix_resolve_def last_segment_def is_slash_def is_suffix_def
  strip_slashes_def

subsection \<open>The order of emission and the type list\<close>

lemma generate_each_emit:
  "generate_each E nss gs source =
     emit_groups E (concat (map (Namespace_getTypes E) nss)) gs source"
  by (induction gs arbitrary: source) (simp_all add: emit_groups_def)

lemma emit_groups_append:
  "emit_groups E types (gs @ hs) source = emit_groups E types hs (emit_groups E types gs source)"
  by (simp add: emit_groups_def)

lemma generateCode_all_groups:
  "generateCode E source parsed pre =
     generate_each E (all_groups parsed pre) (all_groups parsed pre) source"
  by (simp add: generateCode_def Let_def all_groups_def namespace_groups_def service_groups_def
      root_groups_def split: option.splits)

text \<open>
  Claim C1. \<open>generateCode\<close> writes the groups of a parsed schema into the source in
  this order: first the namespace groups, in the order in which the parsed schema
  lists them, then the service groups, then the group of the root-level definitions.
  The source it returns is the one obtained by emitting the namespace groups into the
  given source, the service groups into the result, and the root group into the result
  of that.
\<close>

theorem generateCode_group_order:
  "generateCode E source parsed pre =
     emit_groups E (all_types E parsed pre) (root_groups parsed pre)
       (emit_groups E (all_types E parsed pre) (service_groups parsed pre)
          (emit_groups E (all_types E parsed pre) (namespace_groups parsed pre) source))"
proof -
  have "generateCode E source parsed pre =
          emit_groups E (all_types E parsed pre) (all_groups parsed pre) source"
    by (simp add: generateCode_all_groups generate_each_emit all_types_def)
  then show ?thesis
    by (simp add: all_groups_def emit_groups_append)
qed

theorem generateCode_group_order_witness:
  "generateCode sample_env [] (sample_parse (cds_load sample_env ''m'')) ''I'' =
     [''namespace model;'', ''Im:Order;'', ''root;'', ''Im:Amount;'']
   \<and> emit_groups sample_env [''m:Order'', ''m:Amount'']
         (namespace_groups (sample_parse (cds_load sample_env ''m'')) ''I'') [] =
       [''namespace model;'', ''Im:Order;'']"
  using generateCode_group_order
    [of sample_env "[]" "sample_parse (cds_load sample_env ''m'')" "''I''"]
  by (simp add: sample_simps emit_groups_def all_types_def all_groups_def namespace_groups_def
      service_groups_def root_groups_def)

lemma emit_groups_record:
  "Namespace_generateCode E = record_call \<Longrightarrow>
     emit_groups E types gs calls = calls @ map (\<lambda>n. (n, types)) gs"
  by (induction gs arbitrary: calls) (simp_all add: emit_groups_def record_call_def)

text \<open>
  Claim C2. Every group is emitted with the full type list of the file. When the
  \<open>generateCode\<close> of \<open>Namespace\<close> records its calls, the calls that the program
  makes are one per group, in the order of the groups, and the type list of each call
  is the concatenation of \<open>getTypes\<close> over all the groups of the parsed schema.
\<close>

theorem generateCode_full_type_list:
  "generateCode (E\<lparr> Namespace_generateCode := record_call \<rparr>) [] parsed pre =
     map (\<lambda>n. (n, concat (map (Namespace_getTypes E) (all_groups parsed pre))))
       (all_groups parsed pre)"
  by (simp add: generateCode_all_groups generate_each_emit emit_groups_record)

theorem generateCode_full_type_list_witness:
  "generateCode recording_env [] (sample_parse (cds_load sample_env ''m'')) ''I'' =
     [(\<lparr> ns_definitions = [''m:Order''], ns_interfacePrefix = ''I'', ns_name = Some ''model'' \<rparr>,
       [''m:Order'', ''m:Amount'']),
      (\<lparr> ns_definitions = [''m:Amount''], ns_interfacePrefix = ''I'', ns_name = None \<rparr>,
       [''m:Order'', ''m:Amount''])]"
  using generateCode_full_type_list
    [of recording_env "sample_parse (cds_load sample_env ''m'')" "''I''"]
  by (simp add: recording_env_def sample_simps all_groups_def namespace_groups_def
      service_groups_def root_groups_def)

subsection \<open>Sorting the definitions\<close>

text \<open>
  The comparison by code units is consistent, so that \<open>Array_sort\<close> with it sorts.
\<close>

lemma codeunit_compare_total:
  "codeunit_compare a b \<le> 0 \<or> codeunit_compare b a \<le> 0"
  by (induction a b rule: codeunit_compare.induct) auto

lemma codeunit_compare_trans:
  "codeunit_compare a b \<le> 0 \<Longrightarrow> codeunit_compare b c \<le> 0 \<Longrightarrow> codeunit_compare a c \<le> 0"
proof (induction a arbitrary: b c)
  case Nil
  then show ?case by (cases c) auto
next
  case (Cons x xs)
  then show ?case
    by (cases b; cases c) (auto split: if_splits)
qed

lemma consistent_codeunit_compare: "consistent codeunit_compare"
  unfolding consistent_def before_def
  using codeunit_compare_total codeunit_compare_trans by blast

text \<open>
  Claim C3. With the sort option, the definitions are to be iterated in the order of
  their qualified names, and the program does not achieve it for names that are array
  indices. The compiled schema with the definitions \<open>9\<close> and \<open>10\<close> is loaded with
  the sort option: the entries are sorted to \<open>10\<close>, \<open>9\<close>, which is the order of the
  comparison, but the mapping rebuilt from them iterates \<open>9\<close> before \<open>10\<close>, which
  is not. The pairs of the mapping are the same as before.
\<close>

theorem sort_numeric_names_unsorted:
  "Array_sort (by_key codeunit_compare) [(''9'', ''entity''), (''10'', ''entity'')] =
     [(''10'', ''entity''), (''9'', ''entity'')]
   \<and> Object_entries (definitions (loadCdsAndConvertToJSON
       (sample_env\<lparr> cds_load := \<lambda>p. \<lparr> definitions = [(''9'', ''entity''), (''10'', ''entity'')] \<rparr> \<rparr>)
       ''m'' True)) =
     [(''9'', ''entity''), (''10'', ''entity'')]
   \<and> \<not> sorted_wrt (before (by_key codeunit_compare)) [(''9'', ''entity''), (''10'', ''entity'')]
   \<and> sorted_wrt (before (by_key codeunit_compare)) [(''10'', ''entity''), (''9'', ''entity'')]"
  by (simp add: loadCdsAndConvertToJSON_def Object_fromEntries_def Array_sort_def sample_simps
      before_def by_key_def)

subsection \<open>The file system\<close>

lemma nearest_node_console:
  "nearest_node P (w\<lparr> console := c \<rparr>) n d = nearest_node P w n d"
  by (induction n arbitrary: d) (simp_all split: option.splits)

lemma write_error_print: "write_error P (print line w) p = write_error P w p"
  by (simp add: write_error_def print_def nearest_node_console Let_def
      split: option.splits node.splits)

lemma writeFile_ok:
  "write_error P w p = None \<Longrightarrow>
     writeFile P p s w =
       w\<lparr> nodes := (nodes w)(resolve P p \<mapsto> File s), writes := writes w @ [(p, s)] \<rparr>"
  by (simp add: writeFile_def)

lemma writeFile_error:
  "write_error P w p = Some e \<Longrightarrow> writeFile P p s w = w\<lparr> thrown := Some e \<rparr>"
  by (simp add: writeFile_def)

lemma thrown_writeFile:
  "thrown (writeFile P p s w) = (case write_error P w p of None \<Rightarrow> thrown w | Some e \<Rightarrow> Some e)"
  by (simp add: writeFile_def split: option.splits)

subsection \<open>Writing the source\<close>

text \<open>
  Claim C6, as the program has it. \<open>writeSource\<close> called in a live process:
  when nothing exists at the directory of the output path, nothing is written and the
  process exits with the code \<open>-1\<close>, which is the exit status 255; when the
  directory is there and the file can be written, the source is written to the output
  path and the process goes on; when the directory is there and the file cannot be
  written because the output path is a directory or access is denied, nothing is
  written, the error of the write is thrown and \<open>writeSource\<close> does not exit.
\<close>

theorem writeSource_outcomes:
  "alive w \<longrightarrow>
     (\<not> existsSync P w (dirname P filepath) \<longrightarrow>
        nodes (writeSource P filepath source w) = nodes w \<and>
        writes (writeSource P filepath source w) = writes w \<and>
        exited (writeSource P filepath source w) = Some (- 1) \<and>
        exit_status (- 1) = 255) \<and>
     (existsSync P w (dirname P filepath) \<and> write_error P w filepath = None \<longrightarrow>
        nodes (writeSource P filepath source w) (resolve P filepath) = Some (File source) \<and>
        writes (writeSource P filepath source w) = writes w @ [(filepath, source)] \<and>
        alive (writeSource P filepath source w)) \<and>
     (existsSync P w (dirname P filepath) \<and>
      (write_error P w filepath = Some EISDIR \<or> write_error P w filepath = Some EACCES) \<longrightarrow>
        nodes (writeSource P filepath source w) = nodes w \<and>
        writes (writeSource P filepath source w) = writes w \<and>
        exited (writeSource P filepath source w) = None \<and>
        thrown (writeSource P filepath source w) = write_error P w filepath)"
  by (auto simp: writeSource_def Let_def alive_def writeFile_def print_def process_exit_def
      exit_status_def)

theorem writeSource_outcomes_witness:
  "alive sample_world
   \<and> \<not> existsSync posix sample_world (dirname posix ''gen/a.ts'')
   \<and> exited (writeSource posix ''gen/a.ts'' ''x'' sample_world) = Some (- 1)
   \<and> writes (writeSource posix ''gen/a.ts'' ''x'' sample_world) = writes sample_world
   \<and> existsSync posix sample_world (dirname posix ''srv/a.ts'')
   \<and> write_error posix sample_world ''srv/a.ts'' = None
   \<and> nodes (writeSource posix ''srv/a.ts'' ''x'' sample_world) (resolve posix ''srv/a.ts'') =
       Some (File ''x'')
   \<and> alive (writeSource posix ''srv/a.ts'' ''x'' sample_world)
   \<and> existsSync posix sample_world (dirname posix ''srv/lib'')
   \<and> write_error posix sample_world ''srv/lib'' = Some EISDIR
   \<and> thrown (writeSource posix ''srv/lib'' ''x'' sample_world) = Some EISDIR
   \<and> writes (writeSource posix ''srv/lib'' ''x'' sample_world) = writes sample_world"
proof -
  have a: "alive sample_world"
    by (simp add: alive_def sample_world_def)
  have d1: "\<not> existsSync posix sample_world (dirname posix ''gen/a.ts'')"
    by code_simp
  have d2: "existsSync posix sample_world (dirname posix ''srv/a.ts'')"
    "write_error posix sample_world ''srv/a.ts'' = None"
    by code_simp+
  have d3: "existsSync posix sample_world (dirname posix ''srv/lib'')"
    "write_error posix sample_world ''srv/lib'' = Some EISDIR"
    by code_simp+
  from writeSource_outcomes [of sample_world posix "''gen/a.ts''" "''x''"] a d1
  have r1: "exited (writeSource posix ''gen/a.ts'' ''x'' sample_world) = Some (- 1)"
    "writes (writeSource posix ''gen/a.ts'' ''x'' sample_world) = writes sample_world"
    by blast+
  from writeSource_outcomes [of sample_world posix "''srv/a.ts''" "''x''"] a d2
  have r2: "nodes (writeSource posix ''srv/a.ts'' ''x'' sample_world) (resolve posix ''srv/a.ts'') =
       Some (File ''x'')"
    "alive (writeSource posix ''srv/a.ts'' ''x'' sample_world)"
    by blast+
  from writeSource_outcomes [of sample_world posix "''srv/lib''" "''x''"] a d3
  have r3: "thrown (writeSource posix ''srv/lib'' ''x'' sample_world) = Some EISDIR"
    "writes (writeSource posix ''srv/lib'' ''x'' sample_world) = writes sample_world"
    by simp_all
  from a d1 d2 d3 r1 r2 r3 show ?thesis by blast
qed

text \<open>
  Claim C6 as stated fails where the directory of the output path exists and the file
  still cannot be written. For the output path \<open>vault/a.ts\<close> the directory
  \<open>vault\<close> exists, but access to it is denied: nothing is written and the write
  throws \<open>EACCES\<close>. At the output path \<open>srv/a.cds/x.ts\<close>, the file
  \<open>srv/a.cds\<close> stands where the directory should be: \<open>existsSync\<close> finds it,
  the write throws \<open>ENOTDIR\<close>, nothing is written, and \<open>writeSource\<close> neither
  prints its message nor exits.
\<close>

theorem writeSource_written_counterexample:
  "alive sample_world
   \<and> nodes sample_world (resolve posix (dirname posix ''vault/a.ts'')) = Some Dir
   \<and> existsSync posix sample_world (dirname posix ''vault/a.ts'')
   \<and> nodes (writeSource posix ''vault/a.ts'' ''x'' sample_world) (resolve posix ''vault/a.ts'') =
       None
   \<and> writes (writeSource posix ''vault/a.ts'' ''x'' sample_world) = []
   \<and> thrown (writeSource posix ''vault/a.ts'' ''x'' sample_world) = Some EACCES
   \<and> exited (writeSource posix ''vault/a.ts'' ''x'' sample_world) = None
   \<and> existsSync posix sample_world (dirname posix ''srv/a.cds/x.ts'')
   \<and> nodes (writeSource posix ''srv/a.cds/x.ts'' ''x'' sample_world)
        (resolve posix ''srv/a.cds/x.ts'') = None
   \<and> writes (writeSource posix ''srv/a.cds/x.ts'' ''x'' sample_world) = []
   \<and> console (writeSource posix ''srv/a.cds/x.ts'' ''x'' sample_world) = []
   \<and> thrown (writeSource posix ''srv/a.cds/x.ts'' ''x'' sample_world) = Some ENOTDIR
   \<and> exited (writeSource posix ''srv/a.cds/x.ts'' ''x'' sample_world) = None"
  by code_simp

subsection \<open>One run of the pipeline\<close>

lemma print_fields:
  "nodes (print line w) = nodes w" "denied (print line w) = denied w"
  "writes (print line w) = writes w" "exited (print line w) = exited w"
  "thrown (print line w) = thrown w"
  by (simp_all add: print_def)

lemma removeSync_fields:
  "denied (removeSync P p w) = denied w" "writes (removeSync P p w) = writes w"
  "exited (removeSync P p w) = exited w" "thrown (removeSync P p w) = thrown w"
  "console (removeSync P p w) = console w"
  by (simp_all add: removeSync_def)

text \<open>
  A run ends with the error of the dump, or removes the old output and writes the new
  one.
\<close>

lemma processFile_cases:
  "processFile E opts w =
     (if thrown (after_dump E opts w) \<noteq> None then after_dump E opts w
      else writeSource (paths E) (output_path opts) (pipeline_text E opts)
             (if existsSync (paths E) (after_dump E opts w) (output_path opts)
              then removeSync (paths E) (output_path opts) (after_dump E opts w)
              else after_dump E opts w))"
  by (simp only: processFile_def pipeline_text_def after_dump_def Let_def)



text \<open>The calls of a run that wrote a file: the dump, if any, and then the output, if any.\<close>

lemma writes_writeFile:
  "writes (writeFile P p s w) = writes w @ (if write_error P w p = None then [(p, s)] else [])"
  by (simp add: writeFile_def split: option.splits)

lemma writes_writeSource:
  "writes (writeSource P filepath source w) = writes w \<or>
   writes (writeSource P filepath source w) = writes w @ [(filepath, source)]"
  by (simp add: writeSource_def writes_writeFile print_fields process_exit_def Let_def)

lemma writes_after_dump:
  "writes (after_dump E opts w) =
     writes w @
     (if json opts \<and> write_error (paths E) w (output_path opts @ ''.json'') = None
      then [(output_path opts @ ''.json'',
             JSON_stringify E (loadCdsAndConvertToJSON E (cds opts) (sort_opt opts)))]
      else [])"
  by (simp add: after_dump_def writes_writeFile write_error_print print_fields)

lemma writes_processFile:
  "\<exists>rest. writes (processFile E opts w) = writes (after_dump E opts w) @ rest \<and>
     (rest = [] \<or> rest = [(output_path opts, pipeline_text E opts)])"
proof (cases "thrown (after_dump E opts w) \<noteq> None")
  case True
  then show ?thesis
    by (simp add: processFile_cases)
next
  case False
  let ?w3 = "if existsSync (paths E) (after_dump E opts w) (output_path opts)
             then removeSync (paths E) (output_path opts) (after_dump E opts w)
             else after_dump E opts w"
  from False have pf: "processFile E opts w =
      writeSource (paths E) (output_path opts) (pipeline_text E opts) ?w3"
    by (simp add: processFile_cases)
  have w3: "writes ?w3 = writes (after_dump E opts w)"
    by (simp add: removeSync_fields)
  from writes_writeSource [of "paths E" "output_path opts" "pipeline_text E opts" ?w3]
  show ?thesis
    unfolding pf w3 by auto
qed

subsection \<open>The JSON dump\<close>

text \<open>
  Claim C9, as the program has it. The program writes the dump of the compiled schema
  only when the option \<open>json\<close> is set. When it is set and a file can be written at
  the output path followed by \<open>.json\<close>, the run writes the serialised compiled
  schema there, before anything else; when no file can be written there, the run
  writes no dump. When the option is not set, the run writes nothing at that path.
\<close>

theorem json_dump_when_requested:
  "(json opts \<and> write_error (paths E) w (output_path opts @ ''.json'') = None \<longrightarrow>
      (\<exists>rest. writes (processFile E opts w) =
         writes w @
         (output_path opts @ ''.json'',
          JSON_stringify E (loadCdsAndConvertToJSON E (cds opts) (sort_opt opts))) # rest)) \<and>
   (json opts \<and> write_error (paths E) w (output_path opts @ ''.json'') \<noteq> None \<longrightarrow>
      output_path opts @ ''.json''
        \<notin> fst ` set (drop (length (writes w)) (writes (processFile E opts w)))) \<and>
   (\<not> json opts \<longrightarrow>
      output_path opts @ ''.json''
        \<notin> fst ` set (drop (length (writes w)) (writes (processFile E opts w))))"
  using writes_processFile [of E opts w] by (auto simp: writes_after_dump)

theorem json_dump_when_requested_witness:
  "json (sample_options\<lparr> json := True \<rparr>) \<and> \<not> json sample_options
   \<and> write_error (paths sample_env) sample_world
        (output_path (sample_options\<lparr> json := True \<rparr>) @ ''.json'') = None
   \<and> writes (processFile sample_env (sample_options\<lparr> json := True \<rparr>) sample_world) =
       [(''srv/a.ts.json'', ''srv/a.cds:Order=entity;srv/a.cds:Amount=type;''),
        (''srv/a.ts'', ''namespace model;Isrv/a.cds:Order;root;Isrv/a.cds:Amount;'')]
   \<and> nodes (processFile sample_env (sample_options\<lparr> json := True \<rparr>) sample_world)
        ''/work/srv/a.ts.json'' = Some (File ''srv/a.cds:Order=entity;srv/a.cds:Amount=type;'')
   \<and> writes (processFile sample_env sample_options sample_world) =
       [(''srv/a.ts'', ''namespace model;Isrv/a.cds:Order;root;Isrv/a.cds:Amount;'')]
   \<and> nodes (processFile sample_env sample_options sample_world) ''/work/srv/a.ts.json'' = None"
proof -
  let ?on = "sample_options\<lparr> json := True \<rparr>"
  have j: "json ?on" "\<not> json sample_options"
    by (simp_all add: sample_options_def)
  have e: "write_error (paths sample_env) sample_world (output_path ?on @ ''.json'') = None"
    by code_simp
  have w1: "writes (processFile sample_env ?on sample_world) =
       [(''srv/a.ts.json'', ''srv/a.cds:Order=entity;srv/a.cds:Amount=type;''),
        (''srv/a.ts'', ''namespace model;Isrv/a.cds:Order;root;Isrv/a.cds:Amount;'')]"
    by code_simp
  have n1: "nodes (processFile sample_env ?on sample_world) ''/work/srv/a.ts.json'' =
       Some (File ''srv/a.cds:Order=entity;srv/a.cds:Amount=type;'')"
    by code_simp
  have w2: "writes (processFile sample_env sample_options sample_world) =
       [(''srv/a.ts'', ''namespace model;Isrv/a.cds:Order;root;Isrv/a.cds:Amount;'')]"
    by code_simp
  have n2: "nodes (processFile sample_env sample_options sample_world) ''/work/srv/a.ts.json'' =
       None"
    by code_simp
  from json_dump_when_requested [of ?on sample_env sample_world] j e
  have "\<exists>rest. writes (processFile sample_env ?on sample_world) =
          writes sample_world @
          (output_path ?on @ ''.json'',
           JSON_stringify sample_env
             (loadCdsAndConvertToJSON sample_env (cds ?on) (sort_opt ?on))) # rest"
    by blast
  with j e w1 n1 w2 n2 show ?thesis by blast
qed

text \<open>
  Claim C9 as stated fails when the option is set and the directory of the output path
  is missing: the write of the dump throws \<open>ENOENT\<close>, no dump is written, and the
  run ends there.
\<close>

theorem json_dump_missing_directory_counterexample:
  "json (sample_options\<lparr> json := True, output_path := ''gen/a.ts'' \<rparr>)
   \<and> alive sample_world
   \<and> nodes sample_world (resolve posix ''gen'') = None
   \<and> writes (processFile sample_env (sample_options\<lparr> json := True, output_path := ''gen/a.ts'' \<rparr>)
        sample_world) = []
   \<and> nodes (processFile sample_env (sample_options\<lparr> json := True, output_path := ''gen/a.ts'' \<rparr>)
        sample_world) (resolve posix ''gen/a.ts.json'') = None
   \<and> thrown (processFile sample_env (sample_options\<lparr> json := True, output_path := ''gen/a.ts'' \<rparr>)
        sample_world) = Some ENOENT
   \<and> exited (processFile sample_env (sample_options\<lparr> json := True, output_path := ''gen/a.ts'' \<rparr>)
        sample_world) = None"
  by code_simp

subsection \<open>The files of a folder\<close>







subsection \<open>Watching\<close>

text \<open>
  What the listeners of \<open>createWatcher\<close> do with the method they are given: they
  print the event and hand the method the options of the program with \<open>cds\<close> and the
  output path set.
\<close>

lemma react_with_listener:
  "watch opts \<Longrightarrow> alive w \<Longrightarrow> ev = Change \<or> truthy (folder opts) \<Longrightarrow>
     react_with this_processFile P opts ev filePath w =
       this_processFile
         (opts\<lparr> cds := filePath, output_path := replaceExt_str P filePath ''.ts'' \<rparr>)
         (print (''File '' @ filePath @
                  (if ev = Add then '' has been added!'' else '' has been changed!'')) w)"
  by (cases ev)
    (auto simp: react_with_def createWatcher_with_def emit_def on_def chokidar_watch_def Let_def)

lemma react_listener:
  "watch opts \<Longrightarrow> alive w \<Longrightarrow> ev = Change \<or> truthy (folder opts) \<Longrightarrow>
     react E opts ev filePath w =
       processFile E (event_options (paths E) opts filePath)
         (print (''File '' @ filePath @
                  (if ev = Add then '' has been added!'' else '' has been changed!'')) w)"
  by (simp add: react_def react_with_listener event_options_def)

lemma react_no_listener:
  "watch opts \<Longrightarrow> \<not> truthy (folder opts) \<Longrightarrow> react E opts Add filePath w = w"
  by (simp add: react_def react_with_def createWatcher_with_def emit_def on_def
      chokidar_watch_def Let_def)

text \<open>
  Claim C7, as the program has it. In watch mode the program re-runs the pipeline for
  the file of every \<open>change\<close> event, and for the file of every \<open>add\<close> event when
  the options name a folder. When they name no folder, no listener is registered for
  \<open>add\<close> events and such an event changes nothing.
\<close>

theorem watch_reruns_pipeline:
  "(watch opts \<and> alive w \<and> (ev = Change \<or> truthy (folder opts)) \<longrightarrow>
      react E opts ev filePath w =
        processFile E (event_options (paths E) opts filePath)
          (print (''File '' @ filePath @
                   (if ev = Add then '' has been added!'' else '' has been changed!'')) w)
      \<and> cds (event_options (paths E) opts filePath) = filePath) \<and>
   (watch opts \<and> \<not> truthy (folder opts) \<longrightarrow> react E opts Add filePath w = w)"
  by (simp add: react_listener react_no_listener) (simp add: event_options_def)

theorem watch_reruns_pipeline_witness:
  "watch sample_options \<and> alive sample_world
   \<and> truthy (folder (sample_options\<lparr> folder := ''srv'' \<rparr>))
   \<and> react sample_env sample_options Change ''srv/a.cds'' sample_world =
       processFile sample_env (event_options (paths sample_env) sample_options ''srv/a.cds'')
         (print ''File srv/a.cds has been changed!'' sample_world)
   \<and> react sample_env (sample_options\<lparr> folder := ''srv'' \<rparr>) Add ''srv/c.cds'' sample_world =
       processFile sample_env
         (event_options (paths sample_env) (sample_options\<lparr> folder := ''srv'' \<rparr>) ''srv/c.cds'')
         (print ''File srv/c.cds has been added!'' sample_world)
   \<and> nodes (react sample_env sample_options Change ''srv/a.cds'' sample_world) ''/work/srv/a.ts'' =
       Some (File ''namespace model;Isrv/a.cds:Order;root;Isrv/a.cds:Amount;'')
   \<and> nodes (react sample_env (sample_options\<lparr> folder := ''srv'' \<rparr>) Add ''srv/c.cds''
        sample_world) ''/work/srv/c.ts'' =
       Some (File ''namespace model;Isrv/c.cds:Order;root;Isrv/c.cds:Amount;'')"
proof -
  let ?opts = "sample_options\<lparr> folder := ''srv'' \<rparr>"
  have h: "watch sample_options" "watch ?opts" "alive sample_world"
    "truthy (folder ?opts)"
    by (simp_all add: sample_options_def sample_world_def truthy_def alive_def)
  have c1: "nodes (react sample_env sample_options Change ''srv/a.cds'' sample_world)
              ''/work/srv/a.ts'' =
              Some (File ''namespace model;Isrv/a.cds:Order;root;Isrv/a.cds:Amount;'')"
    by code_simp
  have c2: "nodes (react sample_env ?opts Add ''srv/c.cds'' sample_world) ''/work/srv/c.ts'' =
              Some (File ''namespace model;Isrv/c.cds:Order;root;Isrv/c.cds:Amount;'')"
    by code_simp
  from watch_reruns_pipeline [of sample_options sample_world Change sample_env "''srv/a.cds''"] h
  have r1: "react sample_env sample_options Change ''srv/a.cds'' sample_world =
       processFile sample_env (event_options (paths sample_env) sample_options ''srv/a.cds'')
         (print ''File srv/a.cds has been changed!'' sample_world)"
    by simp
  from watch_reruns_pipeline [of ?opts sample_world Add sample_env "''srv/c.cds''"] h
  have r2: "react sample_env ?opts Add ''srv/c.cds'' sample_world =
       processFile sample_env (event_options (paths sample_env) ?opts ''srv/c.cds'')
         (print ''File srv/c.cds has been added!'' sample_world)"
    by simp
  from h r1 r2 c1 c2 show ?thesis by blast
qed

text \<open>
  Claim C7 as stated fails for an \<open>add\<close> event when the program watches a single
  file: the event prints nothing and writes nothing, where a run of the pipeline for
  the file would have printed its progress and written the output.
\<close>

theorem watch_single_file_add_counterexample:
  "watch sample_options \<and> alive sample_world
   \<and> console (react sample_env sample_options Add ''srv/a.cds'' sample_world) = []
   \<and> nodes (react sample_env sample_options Add ''srv/a.cds'' sample_world) ''/work/srv/a.ts'' =
       None
   \<and> length (console (processFile sample_env
        (event_options (paths sample_env) sample_options ''srv/a.cds'')
        (print ''File srv/a.cds has been added!'' sample_world))) = 3
   \<and> nodes (processFile sample_env
        (event_options (paths sample_env) sample_options ''srv/a.cds'')
        (print ''File srv/a.cds has been added!'' sample_world)) ''/work/srv/a.ts'' =
       Some (File ''namespace model;Isrv/a.cds:Order;root;Isrv/a.cds:Amount;'')"
  by code_simp

text \<open>
  Claim C8. The options of the run that a watcher event starts are the options of the
  program with two fields set: \<open>cds\<close> is the path of the event and the output path
  is that path with its extension replaced by \<open>.ts\<close>. Every other field is the one
  of the program's options. Whatever method stands for \<open>processFile\<close>, and so
  whatever it reads of its options, the reaction to the event is the call of that
  method with exactly these options, after the line that reports the event.
\<close>

theorem watch_event_options_frame:
  "(watch opts \<and> alive w \<and> (ev = Change \<or> truthy (folder opts)) \<longrightarrow>
      react_with this_processFile P opts ev filePath w =
        this_processFile
          (opts\<lparr> cds := filePath, output_path := replaceExt_str P filePath ''.ts'' \<rparr>)
          (print (''File '' @ filePath @
                   (if ev = Add then '' has been added!'' else '' has been changed!'')) w)) \<and>
   react E opts ev filePath w = react_with (processFile E) (paths E) opts ev filePath w"
  by (simp add: react_with_listener react_def)

theorem watch_event_options_frame_witness:
  "watch (sample_options\<lparr> folder := ''srv'', debug := True \<rparr>) \<and> alive sample_world
   \<and> truthy (folder (sample_options\<lparr> folder := ''srv'', debug := True \<rparr>))
   \<and> react_with show_options posix (sample_options\<lparr> folder := ''srv'', debug := True \<rparr>) Add
        ''./srv/c.cds'' sample_world =
       show_options
         (sample_options\<lparr> folder := ''srv'', debug := True, cds := ''./srv/c.cds'',
                          output_path := replaceExt_str posix ''./srv/c.cds'' ''.ts'' \<rparr>)
         (print ''File ./srv/c.cds has been added!'' sample_world)
   \<and> console (react_with show_options posix (sample_options\<lparr> folder := ''srv'', debug := True \<rparr>)
        Add ''./srv/c.cds'' sample_world) =
       [''File ./srv/c.cds has been added!'', ''./srv/c.cds,./srv/c.ts,I,0100,srv,1'']
   \<and> console (show_options (sample_options\<lparr> folder := ''srv'', debug := True \<rparr>) sample_world) =
       [''srv/a.cds,srv/a.ts,I,0100,srv,1'']"
proof -
  let ?opts = "sample_options\<lparr> folder := ''srv'', debug := True \<rparr>"
  have h: "watch ?opts" "alive sample_world" "truthy (folder ?opts)"
    by (simp_all add: sample_options_def sample_world_def truthy_def alive_def)
  have c: "console (react_with show_options posix ?opts Add ''./srv/c.cds'' sample_world) =
       [''File ./srv/c.cds has been added!'', ''./srv/c.cds,./srv/c.ts,I,0100,srv,1'']"
    by code_simp
  have o: "console (show_options ?opts sample_world) = [''srv/a.cds,srv/a.ts,I,0100,srv,1'']"
    by code_simp
  from watch_event_options_frame
    [of ?opts sample_world Add show_options posix "''./srv/c.cds''" sample_env] h
  have "react_with show_options posix ?opts Add ''./srv/c.cds'' sample_world =
       show_options
         (?opts\<lparr> cds := ''./srv/c.cds'',
                  output_path := replaceExt_str posix ''./srv/c.cds'' ''.ts'' \<rparr>)
         (print ''File ./srv/c.cds has been added!'' sample_world)"
    by simp
  with h c o show ?thesis by simp
qed

subsection \<open>Replacing the extension\<close>

text \<open>
  Claim C10. \<open>replaceExt\<close> keeps the prefix of a relative path: for a non-empty string
  that starts with \<open>./\<close>, or with a dot and the path separator of the platform (one
  character), the result starts with a dot and the path separator of the platform.
  A value that is not a string, and the empty string, are returned as they are.
\<close>

theorem replaceExt_relative_prefix:
  "(length (sep P) = 1 \<and> npath \<noteq> [] \<and>
      ((\<exists>t. npath = ''./'' @ t) \<or> (\<exists>t. npath = ''.'' @ sep P @ t))
      \<longrightarrow> (\<exists>rest. replaceExt P (JStr npath) ext = JStr (''.'' @ sep P @ rest)))
   \<and> ((\<forall>s. v \<noteq> JStr s) \<or> v = JStr [] \<longrightarrow> replaceExt P v ext = v)"
proof (intro conjI impI)
  assume a: "length (sep P) = 1 \<and> npath \<noteq> [] \<and>
      ((\<exists>t. npath = ''./'' @ t) \<or> (\<exists>t. npath = ''.'' @ sep P @ t))"
  then have "startsWithSingleDot P npath"
    by (auto simp: startsWithSingleDot_def)
  with a show "\<exists>rest. replaceExt P (JStr npath) ext = JStr (''.'' @ sep P @ rest)"
    by (simp add: Let_def)
next
  assume "(\<forall>s. v \<noteq> JStr s) \<or> v = JStr []"
  then show "replaceExt P v ext = v"
    by (cases v) auto
qed

theorem replaceExt_relative_prefix_witness:
  "replaceExt posix (JStr ''./srv/service.cds'') ''.ts'' = JStr (''./srv/service.ts'')
   \<and> replaceExt posix (JNum 7) ''.ts'' = JNum 7"
  using replaceExt_relative_prefix
    [where P = posix and npath = "''./srv/service.cds''" and v = "JNum 7" and ext = "''.ts''"]
  by (simp add: posix_simps startsWithSingleDot_def Let_def)

end
